theory Spec2Isabelle
  imports Complex_Main
begin

section \<open>Data model\<close>

text \<open>
  The program (ATCNP2.py) works on pandas DataFrames and numpy arrays.  A cell of a
  DataFrame is a number or a string.  Numbers are modelled as reals: the program only
  negates, multiplies, adds and compares them, and the literal \<open>1e-6\<close> is the real
  \<open>1 / 10^6\<close> (no double lies between the two, so \<open>valor > 1e-6\<close> has the same outcome
  for every double \<open>valor\<close>).  Sums and differences are exact in the model and rounded in
  the program.  Missing values (NaN) and infinities are outside the model.

  A DataFrame is its number of rows together with its columns in order, each a label and
  the cells of the column.  pandas guarantees that every column has as many cells as the
  frame has rows; \<open>wf_frame\<close> states this together with the uniqueness of the labels,
  which the lookups by label below rely on.
\<close>

datatype cell = Num real | Str string

record dataframe =
  nrows :: nat
  columns :: "(string \<times> cell list) list"

definition wf_frame :: "dataframe \<Rightarrow> bool" where
  "wf_frame df =
     (distinct (map fst (columns df)) \<and>
      list_all (\<lambda>lc. length (snd lc) = nrows df) (columns df))"

text \<open>A two-dimensional numpy array: its shape (rows, columns) and its rows.\<close>

datatype 'a array2 = Array2 nat nat "'a list list"

text \<open>
  The exceptions the program can raise.  \<open>KeyError\<close> carries the labels that were not
  found; \<open>KeyErrorColuna\<close> is the \<open>KeyError\<close> the loader raises itself, with the missing
  column and the columns read; \<open>ExternalError\<close> is any exception raised inside
  \<open>pd.read_csv\<close> or \<open>linprog\<close>.
\<close>

datatype error =
    FileNotFoundError string string
  | KeyError "cell list"
  | KeyErrorColuna string "string list"
  | ValueError string
  | TypeError
  | IndexError
  | ExternalError string

definition bind_err :: "error + 'a \<Rightarrow> ('a \<Rightarrow> error + 'b) \<Rightarrow> error + 'b" where
  "bind_err m f = (case m of Inl e \<Rightarrow> Inl e | Inr v \<Rightarrow> f v)"

section \<open>The pandas and numpy operations the program uses\<close>

text \<open>\<open>df[label]\<close>: the column with that label, \<open>KeyError\<close> when there is none.\<close>

definition getitem :: "dataframe \<Rightarrow> string \<Rightarrow> error + cell list" where
  "getitem df l =
     (case map_of (columns df) l of
        None \<Rightarrow> Inl (KeyError [Str l])
      | Some col \<Rightarrow> Inr col)"

text \<open>
  \<open>df[labels]\<close> with a list of labels: the frame of those columns, in the order of the
  list; \<open>KeyError\<close> with the labels not found when any is missing.  The labels of a frame
  read from a CSV header are strings, so a numeric label is never found.
\<close>

definition find_col :: "dataframe \<Rightarrow> cell \<Rightarrow> (string \<times> cell list) option" where
  "find_col df lab =
     (case lab of
        Num r \<Rightarrow> None
      | Str s \<Rightarrow> map_option (\<lambda>col. (s, col)) (map_of (columns df) s))"

definition getitem_list :: "dataframe \<Rightarrow> cell list \<Rightarrow> error + dataframe" where
  "getitem_list df labs =
     (case filter (\<lambda>lab. find_col df lab = None) labs of
        [] \<Rightarrow> Inr \<lparr>nrows = nrows df, columns = List.map_filter (find_col df) labs\<rparr>
      | m # ms \<Rightarrow> Inl (KeyError (m # ms)))"

text \<open>\<open>df.to_numpy()\<close>: the cells as a (rows x columns) array.\<close>

definition to_numpy :: "dataframe \<Rightarrow> cell array2" where
  "to_numpy df =
     Array2 (nrows df) (length (columns df))
       (map (\<lambda>i. map (\<lambda>lc. snd lc ! i) (columns df)) [0..<nrows df])"

text \<open>\<open>a.T\<close>: the transposed array.\<close>

fun T :: "'a array2 \<Rightarrow> 'a array2" where
  "T (Array2 r c xss) = Array2 c r (map (\<lambda>j. map (\<lambda>row. row ! j) xss) [0..<c])"

text \<open>
  Unary minus on an array: elementwise, in row-major order; negating a string raises
  \<open>TypeError\<close>.
\<close>

fun neg_list :: "cell list \<Rightarrow> error + real list" where
  "neg_list [] = Inr []"
| "neg_list (Num r # vs) = bind_err (neg_list vs) (\<lambda>rs. Inr (- r # rs))"
| "neg_list (Str s # vs) = Inl TypeError"

fun neg_rows :: "cell list list \<Rightarrow> error + real list list" where
  "neg_rows [] = Inr []"
| "neg_rows (row # rows) =
     bind_err (neg_list row) (\<lambda>r. bind_err (neg_rows rows) (\<lambda>rs. Inr (r # rs)))"

fun neg_array2 :: "cell array2 \<Rightarrow> error + real array2" where
  "neg_array2 (Array2 r c xss) = bind_err (neg_rows xss) (\<lambda>yss. Inr (Array2 r c yss))"

section \<open>Formulation of the linear program\<close>

text \<open>
  Lines 47 to 58 of \<open>resolver_problema_dieta_scipy\<close>: the objective \<open>c\<close>, the names, and
  the negated right-hand side and coefficient matrix, evaluated in the order of the source.
\<close>

record lp_model =
  c_obj :: "cell list"
  nomes_nutrientes :: "cell list"
  nomes_alimentos :: "cell list"
  b_ub :: "real list"
  A_ub :: "real array2"

definition formular :: "dataframe \<Rightarrow> dataframe \<Rightarrow> error + lp_model" where
  "formular dados_nutrientes dados_alimentos =
     bind_err (getitem dados_alimentos ''preco'') (\<lambda>c.
     bind_err (getitem dados_nutrientes ''nutrientes'') (\<lambda>nomes_n.
     bind_err (getitem dados_alimentos ''ingrediente'') (\<lambda>nomes_a.
     bind_err (getitem dados_nutrientes ''minimo'') (\<lambda>minimo.
     bind_err (neg_list minimo) (\<lambda>b.
     bind_err (getitem_list dados_alimentos nomes_n) (\<lambda>sel.
     bind_err (neg_array2 (T (to_numpy sel))) (\<lambda>A.
       Inr \<lparr>c_obj = c, nomes_nutrientes = nomes_n, nomes_alimentos = nomes_a,
            b_ub = b, A_ub = A\<rparr>)))))))"


section \<open>The external solver\<close>

text \<open>
  \<open>scipy.optimize.linprog\<close> is not part of the program: it is a parameter of the model,
  a function from the objective, the matrix and the right-hand side to an
  \<open>OptimizeResult\<close> or an exception.  Of the result the program reads \<open>success\<close>,
  \<open>status\<close>, \<open>message\<close>, \<open>x\<close> and \<open>fun\<close>.
\<close>

record optimize_result =
  success :: bool
  status :: int
  message :: string
  res_x :: "real list"
  res_fun :: real

type_synonym solver = "cell list \<Rightarrow> real array2 \<Rightarrow> real list \<Rightarrow> error + optimize_result"

section \<open>The report\<close>

text \<open>
  The program prints a text.  The model keeps what the text is made of and leaves the
  formatting of the numbers out: the cost, one entry for each food bought, and one line
  for each nutrient; or one of the two messages printed when there is no optimal solution.
\<close>

record compra =
  ingrediente :: cell
  quantidade_necessaria :: real
  unidade_de_compra :: cell

datatype marca = OK | FALHA

record verificacao =
  v_nutriente :: cell
  v_consumido :: real
  v_minimo :: real
  v_atendido :: marca

datatype saida =
    SolucaoOtima real "compra list" "verificacao list"
  | Inviavel
  | SemSolucaoOtima int string

text \<open>
  Line 73: \<open>dados_alimentos.loc[dados_alimentos['ingrediente'] == nome, 'quantidade'].iloc[0]\<close>,
  the first of the \<open>quantidade\<close> cells of the rows whose \<open>ingrediente\<close> is the name.
\<close>

definition unidade_de :: "dataframe \<Rightarrow> cell \<Rightarrow> error + cell" where
  "unidade_de df nome_alimento =
     bind_err (getitem df ''ingrediente'') (\<lambda>ingr.
     bind_err (getitem df ''quantidade'') (\<lambda>quant.
       (case map snd (filter (\<lambda>p. fst p = nome_alimento) (zip ingr quant)) of
          [] \<Rightarrow> Inl IndexError
        | u # us \<Rightarrow> Inr u)))"

text \<open>Lines 69 to 79: the loop over \<open>enumerate(resultado.x)\<close>.\<close>

fun melhor_solucao :: "dataframe \<Rightarrow> cell list \<Rightarrow> (nat \<times> real) list \<Rightarrow> error + compra list" where
  "melhor_solucao df nomes [] = Inr []"
| "melhor_solucao df nomes ((i, valor) # rest) =
     (if valor > 1 / 10 ^ 6 then
        (if i < length nomes then
           bind_err (unidade_de df (nomes ! i)) (\<lambda>unidade.
           bind_err (melhor_solucao df nomes rest) (\<lambda>ms.
             Inr (\<lparr>ingrediente = nomes ! i, quantidade_necessaria = valor,
                   unidade_de_compra = unidade\<rparr> # ms)))
         else Inl IndexError)
      else melhor_solucao df nomes rest)"

text \<open>\<open>A * k\<close> for a scalar \<open>k\<close>, and \<open>np.dot(A, v)\<close> for a matrix and a vector.\<close>

fun scale :: "real \<Rightarrow> real array2 \<Rightarrow> real array2" where
  "scale k (Array2 r c xss) = Array2 r c (map (map (\<lambda>a. a * k)) xss)"

fun dot :: "real array2 \<Rightarrow> real list \<Rightarrow> error + real list" where
  "dot (Array2 r c xss) v =
     (if c = length v then Inr (map (\<lambda>row. sum_list (map2 (*) row v)) xss)
      else Inl (ValueError ''shapes not aligned''))"

text \<open>Lines 89 to 91: the loop over \<open>enumerate(nomes_nutrientes)\<close>.\<close>

fun verificar :: "real list \<Rightarrow> real list \<Rightarrow> (nat \<times> cell) list \<Rightarrow> error + verificacao list" where
  "verificar consumido minimo [] = Inr []"
| "verificar consumido minimo ((i, nome_nutriente) # rest) =
     (if i < length consumido \<and> i < length minimo then
        bind_err (verificar consumido minimo rest) (\<lambda>vs.
          Inr (\<lparr>v_nutriente = nome_nutriente, v_consumido = consumido ! i,
                v_minimo = minimo ! i,
                v_atendido = (if consumido ! i \<ge> minimo ! i - 1 / 10 ^ 6 then OK else FALHA)\<rparr>
               # vs))
      else Inl IndexError)"

text \<open>Lines 64 to 99: what is printed for a result of the solver.\<close>

definition relatorio :: "dataframe \<Rightarrow> lp_model \<Rightarrow> optimize_result \<Rightarrow> error + saida" where
  "relatorio dados_alimentos lp resultado =
     (if success resultado then
        bind_err (melhor_solucao dados_alimentos (nomes_alimentos lp)
                    (List.enumerate 0 (res_x resultado))) (\<lambda>ms.
        bind_err (dot (scale (- 1) (A_ub lp)) (res_x resultado)) (\<lambda>consumido.
        bind_err (verificar consumido (map (\<lambda>b. b * (- 1)) (b_ub lp))
                    (List.enumerate 0 (nomes_nutrientes lp))) (\<lambda>vs.
          Inr (SolucaoOtima (res_fun resultado) ms vs))))
      else if status resultado = 2 then Inr Inviavel
      else Inr (SemSolucaoOtima (status resultado) (message resultado)))"

definition resolver_problema_dieta_scipy ::
  "solver \<Rightarrow> dataframe \<Rightarrow> dataframe \<Rightarrow> error + saida" where
  "resolver_problema_dieta_scipy linprog dados_nutrientes dados_alimentos =
     bind_err (formular dados_nutrientes dados_alimentos) (\<lambda>lp.
     bind_err (linprog (c_obj lp) (A_ub lp) (b_ub lp)) (\<lambda>resultado.
       relatorio dados_alimentos lp resultado))"

section \<open>The loader\<close>

text \<open>
  The file system and \<open>pd.read_csv\<close> are the environment of \<open>carregar_dados_csv\<close>:
  \<open>path_exists\<close> is \<open>os.path.exists\<close>, \<open>read_csv\<close> reads and parses the file at a path
  in an encoding, and \<open>parse_num\<close> is the parsing of one string cell by \<open>pd.to_numeric\<close>
  (\<open>None\<close> when the string is not a number).  The loader returns its result together with
  the list of the calls of \<open>read_csv\<close> it made, in order.
\<close>

datatype encoding = UTF8 | Latin1

record env =
  path_exists :: "string \<Rightarrow> bool"
  read_csv :: "string \<Rightarrow> encoding \<Rightarrow> error + dataframe"
  parse_num :: "string \<Rightarrow> real option"

text \<open>\<open>str.strip()\<close> on the ASCII whitespace characters.\<close>

definition is_space :: "char \<Rightarrow> bool" where
  "is_space ch = (let n = (of_char ch :: nat) in (9 \<le> n \<and> n \<le> 13) \<or> (28 \<le> n \<and> n \<le> 32))"

definition strip :: "string \<Rightarrow> string" where
  "strip s = rev (dropWhile is_space (rev (dropWhile is_space s)))"

definition colunas_chave :: "string list" where
  "colunas_chave = [''ingrediente'', ''quantidade'']"

text \<open>
  \<open>pd.to_numeric(col, errors='raise')\<close>: numbers stay, strings are parsed, and the first
  string that is not a number raises \<open>ValueError\<close>.
\<close>

fun to_numeric :: "(string \<Rightarrow> real option) \<Rightarrow> cell list \<Rightarrow> error + cell list" where
  "to_numeric p [] = Inr []"
| "to_numeric p (Num r # vs) = bind_err (to_numeric p vs) (\<lambda>ws. Inr (Num r # ws))"
| "to_numeric p (Str s # vs) =
     (case p s of
        None \<Rightarrow> Inl (ValueError s)
      | Some r \<Rightarrow> bind_err (to_numeric p vs) (\<lambda>ws. Inr (Num r # ws)))"

text \<open>Lines 35 and 36: every column whose label is not a key column is converted, in order.\<close>

fun converter :: "(string \<Rightarrow> real option) \<Rightarrow> (string \<times> cell list) list \<Rightarrow>
    error + (string \<times> cell list) list" where
  "converter p [] = Inr []"
| "converter p ((l, col) # rest) =
     (if l \<in> set colunas_chave then
        bind_err (converter p rest) (\<lambda>cs. Inr ((l, col) # cs))
      else
        bind_err (to_numeric p col) (\<lambda>col'.
        bind_err (converter p rest) (\<lambda>cs. Inr ((l, col') # cs))))"

text \<open>Lines 24 to 38: the treatment of the food table once it is read.\<close>

definition tratar :: "env \<Rightarrow> dataframe \<Rightarrow> error + dataframe" where
  "tratar e df =
     (let cols = map (\<lambda>lc. (strip (fst lc), snd lc)) (columns df) in
      case filter (\<lambda>k. k \<notin> set (map fst cols)) colunas_chave of
        k # ks \<Rightarrow> Inl (KeyErrorColuna k (map fst cols))
      | [] \<Rightarrow> bind_err (converter (parse_num e) cols) (\<lambda>cs.
                Inr \<lparr>nrows = nrows df, columns = cs\<rparr>))"

definition carregar_dados_csv ::
  "env \<Rightarrow> string \<Rightarrow> string \<Rightarrow> (error + dataframe \<times> dataframe) \<times> (string \<times> encoding) list" where
  "carregar_dados_csv e nome_nutrientes nome_alimentos =
     (if \<not> path_exists e nome_nutrientes \<or> \<not> path_exists e nome_alimentos then
        (Inl (FileNotFoundError nome_nutrientes nome_alimentos), [])
      else
        (case read_csv e nome_nutrientes UTF8 of
           Inl err \<Rightarrow> (Inl err, [(nome_nutrientes, UTF8)])
         | Inr dados_nutrientes \<Rightarrow>
            (case read_csv e nome_alimentos UTF8 of
               Inr df \<Rightarrow>
                 (bind_err (tratar e df) (\<lambda>dados_alimentos.
                    Inr (dados_nutrientes, dados_alimentos)),
                  [(nome_nutrientes, UTF8), (nome_alimentos, UTF8)])
             | Inl err1 \<Rightarrow>
                 (case read_csv e nome_alimentos Latin1 of
                    Inl err \<Rightarrow>
                      (Inl err,
                       [(nome_nutrientes, UTF8), (nome_alimentos, UTF8), (nome_alimentos, Latin1)])
                  | Inr df \<Rightarrow>
                      (bind_err (tratar e df) (\<lambda>dados_alimentos.
                         Inr (dados_nutrientes, dados_alimentos)),
                       [(nome_nutrientes, UTF8), (nome_alimentos, UTF8),
                        (nome_alimentos, Latin1)])))))"

section \<open>Reference notions used in the statements\<close>

text \<open>The index of the first row of the food table whose \<open>ingrediente\<close> is the name.\<close>

definition primeira_linha :: "cell list \<Rightarrow> cell \<Rightarrow> nat" where
  "primeira_linha ingr nome = length (takeWhile (\<lambda>a. a \<noteq> nome) ingr)"



section \<open>Example inputs\<close>

text \<open>
  One nutrient (Protein, at least 50) and two foods (Rice with 25 and Beans with 100 per
  kg), and a solver result that buys half a kg of Beans.
\<close>

definition nutrientes_A :: dataframe where
  "nutrientes_A = \<lparr>nrows = 1, columns = [(''nutrientes'', [Str ''Protein'']), (''minimo'', [Num 50])]\<rparr>"

definition alimentos_A :: dataframe where
  "alimentos_A = \<lparr>nrows = 2, columns =
     [(''ingrediente'', [Str ''Rice'', Str ''Beans'']),
      (''quantidade'', [Str ''kg'', Str ''kg'']),
      (''preco'', [Num 2, Num 3]),
      (''Protein'', [Num 25, Num 100])]\<rparr>"

definition lp_A :: lp_model where
  "lp_A = \<lparr>c_obj = [Num 2, Num 3], nomes_nutrientes = [Str ''Protein''],
           nomes_alimentos = [Str ''Rice'', Str ''Beans''],
           b_ub = [- 50], A_ub = Array2 1 2 [[- 25, - 100]]\<rparr>"

definition res_A :: optimize_result where
  "res_A = \<lparr>success = True, status = 0, message = ''Optimization terminated successfully.'',
          res_x = [0, 1 / 2], res_fun = 3 / 2\<rparr>"

text \<open>A result with the quantity of Rice exactly at the threshold \<open>1e-6\<close>.\<close>

definition res_limiar :: optimize_result where
  "res_limiar = \<lparr>success = True, status = 0, message = ''Optimization terminated successfully.'',
          res_x = [1 / 10 ^ 6, 1 / 2], res_fun = 3 / 2 + 2 / 10 ^ 6\<rparr>"


definition alimentos_B :: dataframe where
  "alimentos_B = \<lparr>nrows = 1, columns =
     [(''ingrediente'', [Str ''Lettuce'']),
      (''quantidade'', [Str ''un'']),
      (''preco'', [Num 1]),
      (''Iron'', [Num 1])]\<rparr>"

definition lp_B :: lp_model where
  "lp_B = \<lparr>c_obj = [Num 1], nomes_nutrientes = [Str ''Iron''],
           nomes_alimentos = [Str ''Lettuce''],
           b_ub = [- 1000], A_ub = Array2 1 1 [[- 1]]\<rparr>"

definition res_B :: "real \<Rightarrow> optimize_result" where
  "res_B q = \<lparr>success = True, status = 0, message = ''Optimization terminated successfully.'',
          res_x = [q], res_fun = q\<rparr>"

text \<open>A food table in which the name Rice is on two rows with different units.\<close>

definition alimentos_dup :: dataframe where
  "alimentos_dup = \<lparr>nrows = 2, columns =
     [(''ingrediente'', [Str ''Rice'', Str ''Rice'']),
      (''quantidade'', [Str ''kg'', Str ''saco'']),
      (''preco'', [Num 2, Num 3]),
      (''Protein'', [Num 25, Num 100])]\<rparr>"

definition lp_dup :: lp_model where
  "lp_dup = \<lparr>c_obj = [Num 2, Num 3], nomes_nutrientes = [Str ''Protein''],
           nomes_alimentos = [Str ''Rice'', Str ''Rice''],
           b_ub = [- 50], A_ub = Array2 1 2 [[- 25, - 100]]\<rparr>"

definition res_dup :: optimize_result where
  "res_dup = \<lparr>success = True, status = 0, message = ''Optimization terminated successfully.'',
          res_x = [1, 1 / 4], res_fun = 11 / 4\<rparr>"

text \<open>
  One nutrient (X, at least 10) and one food without it; results of a solver that finds
  the problem infeasible, and of one that finds it unbounded.
\<close>

definition nutrientes_C :: dataframe where
  "nutrientes_C = \<lparr>nrows = 1, columns = [(''nutrientes'', [Str ''X'']), (''minimo'', [Num 10])]\<rparr>"

definition alimentos_C :: dataframe where
  "alimentos_C = \<lparr>nrows = 1, columns =
     [(''ingrediente'', [Str ''A'']),
      (''quantidade'', [Str ''un'']),
      (''preco'', [Num 1]),
      (''X'', [Num 0])]\<rparr>"

definition lp_C :: lp_model where
  "lp_C = \<lparr>c_obj = [Num 1], nomes_nutrientes = [Str ''X''],
           nomes_alimentos = [Str ''A''],
           b_ub = [- 10], A_ub = Array2 1 1 [[- 0]]\<rparr>"

definition res_inviavel :: optimize_result where
  "res_inviavel = \<lparr>success = False, status = 2, message = ''The problem is infeasible.'',
          res_x = [], res_fun = 0\<rparr>"

definition res_ilimitado :: optimize_result where
  "res_ilimitado = \<lparr>success = False, status = 3, message = ''The problem is unbounded.'',
          res_x = [], res_fun = 0\<rparr>"

definition linprog_inviavel :: solver where
  "linprog_inviavel c A b = Inr res_inviavel"

definition linprog_ilimitado :: solver where
  "linprog_ilimitado c A b = Inr res_ilimitado"

text \<open>The solver that returns \<open>res_A\<close>.\<close>

definition linprog_A :: solver where
  "linprog_A c A b = Inr res_A"

text \<open>
  Nutrient tables whose columns are named \<open>nutrients\<close> and \<open>minimum\<close>, or \<open>nutrientes\<close> and
  \<open>minimum\<close>; and a food table without the column of Protein.
\<close>

definition nutrientes_en :: dataframe where
  "nutrientes_en = \<lparr>nrows = 1, columns = [(''nutrients'', [Str ''Protein'']), (''minimum'', [Num 50])]\<rparr>"

definition nutrientes_misto :: dataframe where
  "nutrientes_misto = \<lparr>nrows = 1, columns = [(''nutrientes'', [Str ''Protein'']), (''minimum'', [Num 50])]\<rparr>"

definition alimentos_sem :: dataframe where
  "alimentos_sem = \<lparr>nrows = 2, columns =
     [(''ingrediente'', [Str ''Rice'', Str ''Beans'']),
      (''quantidade'', [Str ''kg'', Str ''kg'']),
      (''preco'', [Num 2, Num 3])]\<rparr>"

text \<open>What the program prints on the first example.\<close>

definition saida_A :: saida where
  "saida_A = SolucaoOtima (3 / 2)
     [\<lparr>ingrediente = Str ''Beans'', quantidade_necessaria = 1 / 2, unidade_de_compra = Str ''kg''\<rparr>]
     [\<lparr>v_nutriente = Str ''Protein'', v_consumido = 50, v_minimo = 50, v_atendido = OK\<rparr>]"

text \<open>An environment in which only the file of the nutrients exists.\<close>

definition env_so_nutrientes :: env where
  "env_so_nutrientes =
     \<lparr>path_exists = (\<lambda>p. p = ''nutrientes.csv''),
      read_csv = (\<lambda>p enc. Inr nutrientes_A),
      parse_num = (\<lambda>s. None)\<rparr>"





section \<open>Auxiliary facts\<close>

lemma bind_err_Inl [simp]: "bind_err (Inl e) f = Inl e"
  by (simp add: bind_err_def)

lemma bind_err_Inr [simp]: "bind_err (Inr v) f = f v"
  by (simp add: bind_err_def)

lemma bind_err_eq_Inr:
  "bind_err m f = Inr y \<longleftrightarrow> (\<exists>v. m = Inr v \<and> f v = Inr y)"
  by (cases m) simp_all



lemma neg_list_length: "neg_list vs = Inr rs \<Longrightarrow> length rs = length vs"
proof (induction vs arbitrary: rs)
  case Nil
  then show ?case by simp
next
  case (Cons v vs)
  then show ?case by (cases v) (auto simp: bind_err_eq_Inr)
qed

lemma neg_list_nth:
  "neg_list vs = Inr rs \<Longrightarrow> i < length vs \<Longrightarrow> vs ! i = Num (- (rs ! i))"
proof (induction vs arbitrary: rs i)
  case Nil
  then show ?case by simp
next
  case (Cons v vs)
  then show ?case by (cases v; cases i) (auto simp: bind_err_eq_Inr)
qed

lemma neg_rows_length: "neg_rows xss = Inr yss \<Longrightarrow> length yss = length xss"
  by (induction xss arbitrary: yss) (auto simp: bind_err_eq_Inr)

lemma getitem_Inr_length:
  assumes "wf_frame df" and "getitem df l = Inr col"
  shows "length col = nrows df"
proof -
  from assms(2) have "map_of (columns df) l = Some col"
    by (simp add: getitem_def split: option.splits)
  then have "(l, col) \<in> set (columns df)" by (rule map_of_SomeD)
  with assms(1) show ?thesis by (auto simp: wf_frame_def list_all_iff)
qed

lemma map_filter_length:
  "filter (\<lambda>x. f x = None) xs = [] \<Longrightarrow> length (List.map_filter f xs) = length xs"
  by (induction xs) (auto simp: List.map_filter_simps split: if_splits)

lemma getitem_list_Inr:
  assumes "getitem_list df labs = Inr sel"
  shows "nrows sel = nrows df \<and> length (columns sel) = length labs"
  using assms map_filter_length [of "find_col df" labs]
  by (auto simp: getitem_list_def split: list.splits)



lemma formular_Inr:
  assumes "formular dn da = Inr lp"
  shows "getitem da ''preco'' = Inr (c_obj lp)"
    and "getitem dn ''nutrientes'' = Inr (nomes_nutrientes lp)"
    and "getitem da ''ingrediente'' = Inr (nomes_alimentos lp)"
    and "\<exists>mins. getitem dn ''minimo'' = Inr mins \<and> neg_list mins = Inr (b_ub lp)"
    and "\<exists>rows. A_ub lp = Array2 (length (nomes_nutrientes lp)) (nrows da) rows \<and>
           length rows = length (nomes_nutrientes lp)"
proof -
  from assms obtain c nn na mins b sel A where
    c: "getitem da ''preco'' = Inr c" and nn: "getitem dn ''nutrientes'' = Inr nn"
    and na: "getitem da ''ingrediente'' = Inr na" and mins: "getitem dn ''minimo'' = Inr mins"
    and b: "neg_list mins = Inr b" and sel: "getitem_list da nn = Inr sel"
    and A: "neg_array2 (T (to_numpy sel)) = Inr A"
    and lp: "lp = \<lparr>c_obj = c, nomes_nutrientes = nn, nomes_alimentos = na, b_ub = b, A_ub = A\<rparr>"
    unfolding formular_def bind_err_eq_Inr by auto
  show "getitem da ''preco'' = Inr (c_obj lp)" using c lp by simp
  show "getitem dn ''nutrientes'' = Inr (nomes_nutrientes lp)" using nn lp by simp
  show "getitem da ''ingrediente'' = Inr (nomes_alimentos lp)" using na lp by simp
  show "\<exists>mins. getitem dn ''minimo'' = Inr mins \<and> neg_list mins = Inr (b_ub lp)"
    using mins b lp by simp
  from getitem_list_Inr [OF sel] have s: "nrows sel = nrows da" "length (columns sel) = length nn"
    by simp_all
  from A s obtain rows where "A = Array2 (length nn) (nrows da) rows" "length rows = length nn"
    by (auto simp: to_numpy_def bind_err_eq_Inr dest: neg_rows_length)
  then show "\<exists>rows. A_ub lp = Array2 (length (nomes_nutrientes lp)) (nrows da) rows \<and>
           length rows = length (nomes_nutrientes lp)"
    using lp by simp
qed

lemma first_match:
  assumes "length ingr = length quant" and "nome \<in> set ingr"
  shows "\<exists>us. map snd (filter (\<lambda>p. fst p = nome) (zip ingr quant)) =
           quant ! primeira_linha ingr nome # us"
  using assms
proof (induction ingr quant rule: list_induct2)
  case Nil
  then show ?case by simp
next
  case (Cons a ingr q quant)
  then show ?case by (cases "a = nome") (auto simp: primeira_linha_def)
qed

lemma unidade_de_first:
  assumes "getitem df ''ingrediente'' = Inr ingr" and "getitem df ''quantidade'' = Inr quant"
    and "length ingr = length quant" and "nome \<in> set ingr"
  shows "unidade_de df nome = Inr (quant ! primeira_linha ingr nome)"
  using first_match [OF assms(3,4)] assms(1,2) by (auto simp: unidade_de_def)

lemma primeira_linha_props:
  assumes "j < length ingr"
  shows "primeira_linha ingr (ingr ! j) \<le> j"
    and "ingr ! primeira_linha ingr (ingr ! j) = ingr ! j"
    and "\<forall>k < primeira_linha ingr (ingr ! j). ingr ! k \<noteq> ingr ! j"
    and "distinct ingr \<Longrightarrow> primeira_linha ingr (ingr ! j) = j"
proof -
  let ?P = "\<lambda>a. a \<noteq> ingr ! j"
  let ?k = "primeira_linha ingr (ingr ! j)"
  have tw: "ingr ! k \<noteq> ingr ! j" if "k < length (takeWhile ?P ingr)" for k
  proof -
    from that have "takeWhile ?P ingr ! k \<in> set (takeWhile ?P ingr)" by (rule nth_mem)
    then have "takeWhile ?P ingr ! k \<noteq> ingr ! j" by (rule set_takeWhileD [THEN conjunct2])
    moreover have "takeWhile ?P ingr ! k = ingr ! k" using that by (rule takeWhile_nth)
    ultimately show ?thesis by simp
  qed
  have le: "?k \<le> j"
  proof (rule ccontr)
    assume "\<not> ?k \<le> j"
    then have "j < length (takeWhile ?P ingr)" by (simp add: primeira_linha_def)
    then have "ingr ! j \<noteq> ingr ! j" by (rule tw)
    then show False by simp
  qed
  show "?k \<le> j" by (rule le)
  have lt: "?k < length ingr" using le assms by simp
  then have "length (takeWhile ?P ingr) < length ingr" by (simp add: primeira_linha_def)
  then have "\<not> ?P (ingr ! length (takeWhile ?P ingr))" by (rule nth_length_takeWhile)
  then show eq: "ingr ! ?k = ingr ! j" by (simp add: primeira_linha_def)
  show "\<forall>k < ?k. ingr ! k \<noteq> ingr ! j"
    using tw by (simp add: primeira_linha_def)
  show "?k = j" if "distinct ingr"
    using that eq lt assms by (simp add: nth_eq_iff_index_eq)
qed

lemma melhor_solucao_enumerate:
  assumes "\<And>j. j < length nomes \<Longrightarrow> unidade_de df (nomes ! j) = Inr (u j)"
    and "k + length xs \<le> length nomes"
  shows "melhor_solucao df nomes (List.enumerate k xs) =
           Inr (map (\<lambda>(j, v). \<lparr>ingrediente = nomes ! j, quantidade_necessaria = v,
                                unidade_de_compra = u j\<rparr>)
                  (filter (\<lambda>(j, v). v > 1 / 10 ^ 6) (List.enumerate k xs)))"
  using assms(2)
proof (induction xs arbitrary: k)
  case Nil
  then show ?case by simp
next
  case (Cons v xs)
  have k: "k < length nomes" and S: "Suc k + length xs \<le> length nomes"
    using Cons.prems by simp_all
  have IH: "melhor_solucao df nomes (List.enumerate (Suc k) xs) =
           Inr (map (\<lambda>(j, v). \<lparr>ingrediente = nomes ! j, quantidade_necessaria = v,
                                unidade_de_compra = u j\<rparr>)
                  (filter (\<lambda>(j, v). v > 1 / 10 ^ 6) (List.enumerate (Suc k) xs)))"
    by (rule Cons.IH [OF S])
  show ?case by (simp add: IH assms(1) [OF k] k)
qed

lemma verificar_enumerate:
  assumes "k + length nomes \<le> length cons" and "k + length nomes \<le> length mins"
  shows "verificar cons mins (List.enumerate k nomes) =
           Inr (map (\<lambda>(i, nome). \<lparr>v_nutriente = nome, v_consumido = cons ! i,
                  v_minimo = mins ! i,
                  v_atendido = (if cons ! i \<ge> mins ! i - 1 / 10 ^ 6 then OK else FALHA)\<rparr>)
                (List.enumerate k nomes))"
  using assms
proof (induction nomes arbitrary: k)
  case Nil
  then show ?case by simp
next
  case (Cons n nomes)
  have k: "k < length cons" "k < length mins"
    and S: "Suc k + length nomes \<le> length cons" "Suc k + length nomes \<le> length mins"
    using Cons.prems by simp_all
  show ?case by (simp add: Cons.IH [OF S] k)
qed

lemma dot_neg_row:
  "sum_list (map2 (*) (map (\<lambda>a. a * (- 1)) row) v) = - sum_list (map2 (*) row (v :: real list))"
proof (induction row arbitrary: v)
  case Nil
  then show ?case by simp
next
  case (Cons a row)
  then show ?case by (cases v) simp_all
qed

lemma enumerate_upt: "List.enumerate 0 xs = map (\<lambda>j. (j, xs ! j)) [0..<length xs]"
  by (rule nth_equalityI) (simp_all add: nth_enumerate_eq)

lemma dot_uminus_row:
  "sum_list (map2 (*) (map uminus row) v) = - sum_list (map2 (*) row (v :: real list))"
  using dot_neg_row [of row v] by (simp add: comp_def)

lemma relatorio_optimal:
  assumes wfn: "wf_frame dn" and wfa: "wf_frame da"
    and f: "formular dn da = Inr lp"
    and q: "getitem da ''quantidade'' = Inr quant"
    and s: "success res"
    and lx: "length (res_x res) = nrows da"
    and A: "A_ub lp = Array2 r c rows"
  shows "relatorio da lp res = Inr (SolucaoOtima (res_fun res)
      (map (\<lambda>j. \<lparr>ingrediente = nomes_alimentos lp ! j,
                  quantidade_necessaria = res_x res ! j,
                  unidade_de_compra =
                    quant ! primeira_linha (nomes_alimentos lp) (nomes_alimentos lp ! j)\<rparr>)
         (filter (\<lambda>j. res_x res ! j > 1 / 10 ^ 6) [0..<length (res_x res)]))
      (map (\<lambda>i. \<lparr>v_nutriente = nomes_nutrientes lp ! i,
                  v_consumido = - sum_list (map2 (*) (rows ! i) (res_x res)),
                  v_minimo = - (b_ub lp ! i),
                  v_atendido =
                    (if - sum_list (map2 (*) (rows ! i) (res_x res)) \<ge> - (b_ub lp ! i) - 1 / 10 ^ 6
                     then OK else FALHA)\<rparr>)
         [0..<length (nomes_nutrientes lp)]))"
    and "length rows = length (nomes_nutrientes lp)"
    and "length (b_ub lp) = length (nomes_nutrientes lp)"
    and "length (nomes_alimentos lp) = nrows da"
    and "length quant = nrows da"
proof -
  let ?x = "res_x res" and ?na = "nomes_alimentos lp" and ?nn = "nomes_nutrientes lp"
  let ?u = "\<lambda>j. quant ! primeira_linha ?na (?na ! j)"
  have ingr: "getitem da ''ingrediente'' = Inr ?na" by (rule formular_Inr(3) [OF f])
  have lna: "length ?na = nrows da" by (rule getitem_Inr_length [OF wfa ingr])
  have lq: "length quant = nrows da" by (rule getitem_Inr_length [OF wfa q])
  have un: "unidade_de da (?na ! j) = Inr (?u j)" if "j < length ?na" for j
    using unidade_de_first [OF ingr q] lna lq that by simp
  have ms: "melhor_solucao da ?na (List.enumerate 0 ?x) =
      Inr (map (\<lambda>(j, v). \<lparr>ingrediente = ?na ! j, quantidade_necessaria = v,
                            unidade_de_compra = ?u j\<rparr>)
             (filter (\<lambda>(j, v). v > 1 / 10 ^ 6) (List.enumerate 0 ?x)))"
    by (rule melhor_solucao_enumerate) (simp_all add: un lx lna)
  have ms': "map (\<lambda>(j, v). \<lparr>ingrediente = ?na ! j, quantidade_necessaria = v,
                            unidade_de_compra = ?u j\<rparr>)
             (filter (\<lambda>(j, v). v > 1 / 10 ^ 6) (List.enumerate 0 ?x)) =
      map (\<lambda>j. \<lparr>ingrediente = ?na ! j, quantidade_necessaria = ?x ! j,
                  unidade_de_compra = ?u j\<rparr>)
         (filter (\<lambda>j. ?x ! j > 1 / 10 ^ 6) [0..<length ?x])"
    by (simp add: enumerate_upt filter_map comp_def)
  have nn: "getitem dn ''nutrientes'' = Inr ?nn" by (rule formular_Inr(2) [OF f])
  have lnn: "length ?nn = nrows dn" by (rule getitem_Inr_length [OF wfn nn])
  from formular_Inr(4) [OF f] obtain mins where
    mins: "getitem dn ''minimo'' = Inr mins" and b: "neg_list mins = Inr (b_ub lp)" by blast
  have lb: "length (b_ub lp) = length ?nn"
    using neg_list_length [OF b] getitem_Inr_length [OF wfn mins] lnn by simp
  from formular_Inr(5) [OF f] A have shape: "r = length ?nn" "c = nrows da"
    and lrows: "length rows = length ?nn" by auto
  let ?cons = "map (\<lambda>row. - sum_list (map2 (*) row ?x)) rows"
  let ?mins = "map (\<lambda>b. b * (- 1)) (b_ub lp)"
  have d: "dot (scale (- 1) (A_ub lp)) ?x = Inr ?cons"
    by (simp add: A shape lx dot_uminus_row comp_def)
  have v: "verificar ?cons ?mins (List.enumerate 0 ?nn) =
      Inr (map (\<lambda>(i, nome). \<lparr>v_nutriente = nome, v_consumido = ?cons ! i,
                  v_minimo = ?mins ! i,
                  v_atendido = (if ?cons ! i \<ge> ?mins ! i - 1 / 10 ^ 6 then OK else FALHA)\<rparr>)
                (List.enumerate 0 ?nn))"
    by (rule verificar_enumerate) (simp_all add: lrows lb)
  have v': "map (\<lambda>(i, nome). \<lparr>v_nutriente = nome, v_consumido = ?cons ! i,
                  v_minimo = ?mins ! i,
                  v_atendido = (if ?cons ! i \<ge> ?mins ! i - 1 / 10 ^ 6 then OK else FALHA)\<rparr>)
                (List.enumerate 0 ?nn) =
      map (\<lambda>i. \<lparr>v_nutriente = ?nn ! i,
                  v_consumido = - sum_list (map2 (*) (rows ! i) ?x),
                  v_minimo = - (b_ub lp ! i),
                  v_atendido =
                    (if - sum_list (map2 (*) (rows ! i) ?x) \<ge> - (b_ub lp ! i) - 1 / 10 ^ 6
                     then OK else FALHA)\<rparr>)
         [0..<length ?nn]"
    by (simp add: enumerate_upt lrows lb)
  show "relatorio da lp res = Inr (SolucaoOtima (res_fun res)
      (map (\<lambda>j. \<lparr>ingrediente = ?na ! j, quantidade_necessaria = ?x ! j,
                  unidade_de_compra = ?u j\<rparr>)
         (filter (\<lambda>j. ?x ! j > 1 / 10 ^ 6) [0..<length ?x]))
      (map (\<lambda>i. \<lparr>v_nutriente = ?nn ! i,
                  v_consumido = - sum_list (map2 (*) (rows ! i) ?x),
                  v_minimo = - (b_ub lp ! i),
                  v_atendido =
                    (if - sum_list (map2 (*) (rows ! i) ?x) \<ge> - (b_ub lp ! i) - 1 / 10 ^ 6
                     then OK else FALHA)\<rparr>)
         [0..<length ?nn]))"
    unfolding relatorio_def by (simp only: s if_True ms ms' d v v' bind_err_Inr)
  show "length rows = length ?nn" by (rule lrows)
  show "length (b_ub lp) = length ?nn" by (rule lb)
  show "length ?na = nrows da" by (rule lna)
  show "length quant = nrows da" by (rule lq)
qed

section \<open>The example inputs evaluated\<close>

lemmas formular_eval = formular_def getitem_def getitem_list_def find_col_def
  List.map_filter_simps to_numpy_def eval_nat_numeral

lemma wf_nutrientes_A: "wf_frame nutrientes_A"
  by (simp add: wf_frame_def nutrientes_A_def)

lemma wf_alimentos_A: "wf_frame alimentos_A"
  by (simp add: wf_frame_def alimentos_A_def)

lemma formular_A: "formular nutrientes_A alimentos_A = Inr lp_A"
  by (simp add: formular_eval nutrientes_A_def alimentos_A_def lp_A_def)

lemma quantidade_A: "getitem alimentos_A ''quantidade'' = Inr [Str ''kg'', Str ''kg'']"
  by (simp add: getitem_def alimentos_A_def)





lemma wf_alimentos_dup: "wf_frame alimentos_dup"
  by (simp add: wf_frame_def alimentos_dup_def)

lemma formular_dup: "formular nutrientes_A alimentos_dup = Inr lp_dup"
  by (simp add: formular_eval nutrientes_A_def alimentos_dup_def lp_dup_def)

lemma quantidade_dup: "getitem alimentos_dup ''quantidade'' = Inr [Str ''kg'', Str ''saco'']"
  by (simp add: getitem_def alimentos_dup_def)

lemma formular_C: "formular nutrientes_C alimentos_C = Inr lp_C"
  by (simp add: formular_eval nutrientes_C_def alimentos_C_def lp_C_def)

lemma relatorio_A: "relatorio alimentos_A lp_A res_A = Inr saida_A"
  by (simp add: relatorio_def unidade_de_def getitem_def lp_A_def res_A_def alimentos_A_def
      saida_A_def eval_nat_numeral)

lemma resolver_A: "resolver_problema_dieta_scipy linprog_A nutrientes_A alimentos_A = Inr saida_A"
  by (simp add: resolver_problema_dieta_scipy_def formular_A linprog_A_def relatorio_A)

lemma neg_list_inverse:
  assumes "neg_list vs = Inr rs"
  shows "vs = map (\<lambda>b. Num (- b)) rs"
proof (rule nth_equalityI)
  show "length vs = length (map (\<lambda>b. Num (- b)) rs)"
    using neg_list_length [OF assms] by simp
next
  fix i assume "i < length vs"
  then show "vs ! i = map (\<lambda>b. Num (- b)) rs ! i"
    using neg_list_nth [OF assms] neg_list_length [OF assms] by simp
qed

lemma relatorio_limiar:
  "relatorio alimentos_A lp_A res_limiar =
     Inr (SolucaoOtima (3 / 2 + 2 / 10 ^ 6)
       [\<lparr>ingrediente = Str ''Beans'', quantidade_necessaria = 1 / 2,
         unidade_de_compra = Str ''kg''\<rparr>]
       [\<lparr>v_nutriente = Str ''Protein'', v_consumido = 50 + 25 / 10 ^ 6, v_minimo = 50,
         v_atendido = OK\<rparr>])"
  by (simp add: relatorio_def unidade_de_def getitem_def lp_A_def res_limiar_def alimentos_A_def
      eval_nat_numeral)

lemma relatorio_B_no_limite:
  "relatorio alimentos_B lp_B (res_B (1000 - 1 / 10 ^ 6)) =
     Inr (SolucaoOtima (1000 - 1 / 10 ^ 6)
       [\<lparr>ingrediente = Str ''Lettuce'', quantidade_necessaria = 1000 - 1 / 10 ^ 6,
         unidade_de_compra = Str ''un''\<rparr>]
       [\<lparr>v_nutriente = Str ''Iron'', v_consumido = 1000 - 1 / 10 ^ 6, v_minimo = 1000,
         v_atendido = OK\<rparr>])"
  by (simp add: relatorio_def unidade_de_def getitem_def lp_B_def res_B_def alimentos_B_def
      eval_nat_numeral)

lemma relatorio_B_abaixo_do_limite:
  "relatorio alimentos_B lp_B (res_B (1000 - 2 / 10 ^ 6)) =
     Inr (SolucaoOtima (1000 - 2 / 10 ^ 6)
       [\<lparr>ingrediente = Str ''Lettuce'', quantidade_necessaria = 1000 - 2 / 10 ^ 6,
         unidade_de_compra = Str ''un''\<rparr>]
       [\<lparr>v_nutriente = Str ''Iron'', v_consumido = 1000 - 2 / 10 ^ 6, v_minimo = 1000,
         v_atendido = FALHA\<rparr>])"
  by (simp add: relatorio_def unidade_de_def getitem_def lp_B_def res_B_def alimentos_B_def
      eval_nat_numeral)

section \<open>Facts about the loader\<close>







section \<open>The formulation negates the content matrix and the minimums\<close>



section \<open>The recomputed totals\<close>



section \<open>No optimal solution\<close>

text \<open>
  C4.  When the solver does not succeed (\<open>resultado.success\<close> is false; for \<open>linprog\<close> this
  is the same as a status other than 0), the program prints the message of the infeasible
  problem when the status is 2 and otherwise the generic message with the status and the
  message of the solver; in neither case does it print the report of a solution.
\<close>

theorem sem_solucao_otima:
  assumes "formular dn da = Inr lp"
    and "linprog (c_obj lp) (A_ub lp) (b_ub lp) = Inr res"
    and "\<not> success res"
  shows "resolver_problema_dieta_scipy linprog dn da =
           Inr (if status res = 2 then Inviavel
                else SemSolucaoOtima (status res) (message res)) \<and>
         (\<forall>custo ms vs. resolver_problema_dieta_scipy linprog dn da \<noteq>
            Inr (SolucaoOtima custo ms vs))"
  using assms by (simp add: resolver_problema_dieta_scipy_def relatorio_def)

theorem sem_solucao_otima_witness:
  "resolver_problema_dieta_scipy linprog_inviavel nutrientes_C alimentos_C = Inr Inviavel \<and>
   resolver_problema_dieta_scipy linprog_ilimitado nutrientes_C alimentos_C =
     Inr (SemSolucaoOtima 3 ''The problem is unbounded.'')"
proof -
  have "linprog_inviavel (c_obj lp_C) (A_ub lp_C) (b_ub lp_C) = Inr res_inviavel"
    and "\<not> success res_inviavel"
    by (simp_all add: linprog_inviavel_def res_inviavel_def)
  with formular_C have a: "resolver_problema_dieta_scipy linprog_inviavel nutrientes_C alimentos_C =
           Inr (if status res_inviavel = 2 then Inviavel
                else SemSolucaoOtima (status res_inviavel) (message res_inviavel)) \<and>
         (\<forall>custo ms vs. resolver_problema_dieta_scipy linprog_inviavel nutrientes_C alimentos_C \<noteq>
            Inr (SolucaoOtima custo ms vs))"
    by (rule sem_solucao_otima)
  have "linprog_ilimitado (c_obj lp_C) (A_ub lp_C) (b_ub lp_C) = Inr res_ilimitado"
    and "\<not> success res_ilimitado"
    by (simp_all add: linprog_ilimitado_def res_ilimitado_def)
  with formular_C have b: "resolver_problema_dieta_scipy linprog_ilimitado nutrientes_C alimentos_C =
           Inr (if status res_ilimitado = 2 then Inviavel
                else SemSolucaoOtima (status res_ilimitado) (message res_ilimitado)) \<and>
         (\<forall>custo ms vs. resolver_problema_dieta_scipy linprog_ilimitado nutrientes_C alimentos_C \<noteq>
            Inr (SolucaoOtima custo ms vs))"
    by (rule sem_solucao_otima)
  from a b show ?thesis by (simp add: res_inviavel_def res_ilimitado_def)
qed

section \<open>The mark of each nutrient\<close>



section \<open>The foods bought\<close>

text \<open>
  C6.  When the solver succeeds on a formulated problem, the foods listed are exactly those
  of the indices \<open>j\<close> with \<open>x[j] > 1e-6\<close>, in increasing order of \<open>j\<close>, each with its
  name and its quantity \<open>x[j]\<close>; a quantity equal to \<open>1e-6\<close> is not listed.
\<close>

theorem compras_limiar:
  assumes "wf_frame dn" and "wf_frame da"
    and "formular dn da = Inr lp"
    and "getitem da ''quantidade'' = Inr quant"
    and "success res"
    and "length (res_x res) = nrows da"
  shows "\<exists>ms vs. relatorio da lp res = Inr (SolucaoOtima (res_fun res) ms vs) \<and>
           map (\<lambda>m. (ingrediente m, quantidade_necessaria m)) ms =
             map (\<lambda>j. (nomes_alimentos lp ! j, res_x res ! j))
               (filter (\<lambda>j. res_x res ! j > 1 / 10 ^ 6) [0..<length (res_x res)])"
proof -
  from formular_Inr(5) [OF assms(3)] obtain rows where
    A: "A_ub lp = Array2 (length (nomes_nutrientes lp)) (nrows da) rows" by blast
  note R = relatorio_optimal [OF assms(1-6) A]
  show ?thesis
    by (rule exI, rule exI, rule conjI, rule R(1)) (simp add: comp_def)
qed

theorem compras_limiar_witness:
  "\<exists>ms vs. relatorio alimentos_A lp_A res_limiar =
       Inr (SolucaoOtima (3 / 2 + 2 / 10 ^ 6) ms vs) \<and>
     map (\<lambda>m. (ingrediente m, quantidade_necessaria m)) ms = [(Str ''Beans'', 1 / 2)]"
proof -
  have "success res_limiar" and "length (res_x res_limiar) = nrows alimentos_A"
    by (simp_all add: res_limiar_def alimentos_A_def)
  with wf_nutrientes_A wf_alimentos_A formular_A quantidade_A
  have "\<exists>ms vs. relatorio alimentos_A lp_A res_limiar =
           Inr (SolucaoOtima (res_fun res_limiar) ms vs) \<and>
           map (\<lambda>m. (ingrediente m, quantidade_necessaria m)) ms =
             map (\<lambda>j. (nomes_alimentos lp_A ! j, res_x res_limiar ! j))
               (filter (\<lambda>j. res_x res_limiar ! j > 1 / 10 ^ 6) [0..<length (res_x res_limiar)])"
    by (rule compras_limiar)
  then show ?thesis by (simp add: res_limiar_def lp_A_def eval_nat_numeral)
qed

section \<open>The purchase unit of a food bought\<close>

text \<open>
  C10.  When the solver succeeds on a formulated problem, the unit printed for the food
  bought at index \<open>j\<close> is the \<open>quantidade\<close> cell of the first row of the food table whose
  \<open>ingrediente\<close> equals the name at \<open>j\<close>: a row not after \<open>j\<close>, with the same name, no
  earlier row having that name.  It is the cell of row \<open>j\<close> itself when the names are
  distinct.
\<close>

theorem unidade_primeira_linha:
  assumes "wf_frame dn" and "wf_frame da"
    and "formular dn da = Inr lp"
    and "getitem da ''quantidade'' = Inr quant"
    and "success res"
    and "length (res_x res) = nrows da"
    and "getitem da ''ingrediente'' = Inr ingr"
    and "comprados = filter (\<lambda>j. res_x res ! j > 1 / 10 ^ 6) [0..<length (res_x res)]"
  shows "\<exists>ms vs. relatorio da lp res = Inr (SolucaoOtima (res_fun res) ms vs) \<and>
           length ms = length comprados \<and>
           (\<forall>p<length comprados.
              ingrediente (ms ! p) = ingr ! (comprados ! p) \<and>
              unidade_de_compra (ms ! p) = quant ! primeira_linha ingr (ingr ! (comprados ! p)) \<and>
              primeira_linha ingr (ingr ! (comprados ! p)) \<le> comprados ! p \<and>
              ingr ! primeira_linha ingr (ingr ! (comprados ! p)) = ingr ! (comprados ! p) \<and>
              (\<forall>k<primeira_linha ingr (ingr ! (comprados ! p)). ingr ! k \<noteq> ingr ! (comprados ! p)) \<and>
              (distinct ingr \<longrightarrow> unidade_de_compra (ms ! p) = quant ! (comprados ! p)))"
proof -
  from formular_Inr(5) [OF assms(3)] obtain rows where
    A: "A_ub lp = Array2 (length (nomes_nutrientes lp)) (nrows da) rows" by blast
  note R = relatorio_optimal [OF assms(1-6) A]
  have na: "nomes_alimentos lp = ingr" using formular_Inr(3) [OF assms(3)] assms(7) by simp
  have in_range: "comprados ! p < length ingr" if "p < length comprados" for p
  proof -
    from that have "comprados ! p \<in> set comprados" by (rule nth_mem)
    then show ?thesis using assms(6,8) R(4) na by simp
  qed
  show ?thesis
  proof (rule exI, rule exI, rule conjI, rule R(1), rule conjI)
    show "length (map (\<lambda>j. \<lparr>ingrediente = nomes_alimentos lp ! j,
              quantidade_necessaria = res_x res ! j,
              unidade_de_compra =
                quant ! primeira_linha (nomes_alimentos lp) (nomes_alimentos lp ! j)\<rparr>)
            (filter (\<lambda>j. res_x res ! j > 1 / 10 ^ 6) [0..<length (res_x res)])) =
          length comprados"
      by (simp add: assms(8))
  next
    show "\<forall>p<length comprados.
        ingrediente (map (\<lambda>j. \<lparr>ingrediente = nomes_alimentos lp ! j,
              quantidade_necessaria = res_x res ! j,
              unidade_de_compra =
                quant ! primeira_linha (nomes_alimentos lp) (nomes_alimentos lp ! j)\<rparr>)
            (filter (\<lambda>j. res_x res ! j > 1 / 10 ^ 6) [0..<length (res_x res)]) ! p) =
          ingr ! (comprados ! p) \<and>
        unidade_de_compra (map (\<lambda>j. \<lparr>ingrediente = nomes_alimentos lp ! j,
              quantidade_necessaria = res_x res ! j,
              unidade_de_compra =
                quant ! primeira_linha (nomes_alimentos lp) (nomes_alimentos lp ! j)\<rparr>)
            (filter (\<lambda>j. res_x res ! j > 1 / 10 ^ 6) [0..<length (res_x res)]) ! p) =
          quant ! primeira_linha ingr (ingr ! (comprados ! p)) \<and>
        primeira_linha ingr (ingr ! (comprados ! p)) \<le> comprados ! p \<and>
        ingr ! primeira_linha ingr (ingr ! (comprados ! p)) = ingr ! (comprados ! p) \<and>
        (\<forall>k<primeira_linha ingr (ingr ! (comprados ! p)). ingr ! k \<noteq> ingr ! (comprados ! p)) \<and>
        (distinct ingr \<longrightarrow>
           unidade_de_compra (map (\<lambda>j. \<lparr>ingrediente = nomes_alimentos lp ! j,
              quantidade_necessaria = res_x res ! j,
              unidade_de_compra =
                quant ! primeira_linha (nomes_alimentos lp) (nomes_alimentos lp ! j)\<rparr>)
            (filter (\<lambda>j. res_x res ! j > 1 / 10 ^ 6) [0..<length (res_x res)]) ! p) =
           quant ! (comprados ! p))"
    proof (intro allI impI)
      fix p assume p: "p < length comprados"
      note P = primeira_linha_props [OF in_range [OF p]]
      from p P show "ingrediente (map (\<lambda>j. \<lparr>ingrediente = nomes_alimentos lp ! j,
              quantidade_necessaria = res_x res ! j,
              unidade_de_compra =
                quant ! primeira_linha (nomes_alimentos lp) (nomes_alimentos lp ! j)\<rparr>)
            (filter (\<lambda>j. res_x res ! j > 1 / 10 ^ 6) [0..<length (res_x res)]) ! p) =
          ingr ! (comprados ! p) \<and>
        unidade_de_compra (map (\<lambda>j. \<lparr>ingrediente = nomes_alimentos lp ! j,
              quantidade_necessaria = res_x res ! j,
              unidade_de_compra =
                quant ! primeira_linha (nomes_alimentos lp) (nomes_alimentos lp ! j)\<rparr>)
            (filter (\<lambda>j. res_x res ! j > 1 / 10 ^ 6) [0..<length (res_x res)]) ! p) =
          quant ! primeira_linha ingr (ingr ! (comprados ! p)) \<and>
        primeira_linha ingr (ingr ! (comprados ! p)) \<le> comprados ! p \<and>
        ingr ! primeira_linha ingr (ingr ! (comprados ! p)) = ingr ! (comprados ! p) \<and>
        (\<forall>k<primeira_linha ingr (ingr ! (comprados ! p)). ingr ! k \<noteq> ingr ! (comprados ! p)) \<and>
        (distinct ingr \<longrightarrow>
           unidade_de_compra (map (\<lambda>j. \<lparr>ingrediente = nomes_alimentos lp ! j,
              quantidade_necessaria = res_x res ! j,
              unidade_de_compra =
                quant ! primeira_linha (nomes_alimentos lp) (nomes_alimentos lp ! j)\<rparr>)
            (filter (\<lambda>j. res_x res ! j > 1 / 10 ^ 6) [0..<length (res_x res)]) ! p) =
           quant ! (comprados ! p))"
        unfolding na assms(8) [symmetric] by simp
    qed
  qed
qed

theorem unidade_primeira_linha_witness:
  "\<exists>ms vs. relatorio alimentos_dup lp_dup res_dup = Inr (SolucaoOtima (11 / 4) ms vs) \<and>
     length ms = 2 \<and>
     ingrediente (ms ! 1) = Str ''Rice'' \<and> unidade_de_compra (ms ! 1) = Str ''kg''"
proof -
  have "success res_dup" and "length (res_x res_dup) = nrows alimentos_dup"
    and "getitem alimentos_dup ''ingrediente'' = Inr [Str ''Rice'', Str ''Rice'']"
    and "[0, 1] = filter (\<lambda>j. res_x res_dup ! j > 1 / 10 ^ 6) [0..<length (res_x res_dup)]"
    by (simp_all add: res_dup_def alimentos_dup_def getitem_def eval_nat_numeral)
  with wf_nutrientes_A wf_alimentos_dup formular_dup quantidade_dup
  have "\<exists>ms vs. relatorio alimentos_dup lp_dup res_dup =
           Inr (SolucaoOtima (res_fun res_dup) ms vs) \<and>
           length ms = length [0, 1 :: nat] \<and>
           (\<forall>p<length [0, 1 :: nat].
              ingrediente (ms ! p) = [Str ''Rice'', Str ''Rice''] ! ([0, 1] ! p) \<and>
              unidade_de_compra (ms ! p) =
                [Str ''kg'', Str ''saco''] !
                  primeira_linha [Str ''Rice'', Str ''Rice''] ([Str ''Rice'', Str ''Rice''] ! ([0, 1] ! p)) \<and>
              primeira_linha [Str ''Rice'', Str ''Rice''] ([Str ''Rice'', Str ''Rice''] ! ([0, 1] ! p))
                \<le> [0, 1] ! p \<and>
              [Str ''Rice'', Str ''Rice''] !
                primeira_linha [Str ''Rice'', Str ''Rice''] ([Str ''Rice'', Str ''Rice''] ! ([0, 1] ! p)) =
                [Str ''Rice'', Str ''Rice''] ! ([0, 1] ! p) \<and>
              (\<forall>k<primeira_linha [Str ''Rice'', Str ''Rice''] ([Str ''Rice'', Str ''Rice''] ! ([0, 1] ! p)).
                 [Str ''Rice'', Str ''Rice''] ! k \<noteq> [Str ''Rice'', Str ''Rice''] ! ([0, 1] ! p)) \<and>
              (distinct [Str ''Rice'', Str ''Rice''] \<longrightarrow>
                 unidade_de_compra (ms ! p) = [Str ''kg'', Str ''saco''] ! ([0, 1] ! p)))"
    by (rule unidade_primeira_linha)
  then obtain ms vs where
    r: "relatorio alimentos_dup lp_dup res_dup = Inr (SolucaoOtima (res_fun res_dup) ms vs)"
    and l: "length ms = 2"
    and a: "ingrediente (ms ! 1) = [Str ''Rice'', Str ''Rice''] ! ([0, 1] ! 1)"
      "unidade_de_compra (ms ! 1) =
         [Str ''kg'', Str ''saco''] !
           primeira_linha [Str ''Rice'', Str ''Rice''] ([Str ''Rice'', Str ''Rice''] ! ([0, 1] ! 1))"
    by auto
  from a have "ingrediente (ms ! 1) = Str ''Rice''" "unidade_de_compra (ms ! 1) = Str ''kg''"
    by (simp_all add: primeira_linha_def)
  with r l show ?thesis by (auto simp: res_dup_def)
qed

section \<open>A nutrient that is not a column of the food table\<close>

text \<open>
  C3.  When a name of the nutrient table is not the label of a column of the food table,
  the program raises an exception, whatever the solver: no problem is formulated with zeros
  in the place of the missing column.  When the tables are well formed, the other columns
  the formulation reads are there and the minimums are numbers, the exception is the
  \<open>KeyError\<close> of the selection of the nutrient columns, which carries the missing names.
\<close>

theorem nutriente_ausente:
  assumes "getitem dn ''nutrientes'' = Inr nomes"
    and "Str n \<in> set nomes"
    and "n \<notin> fst ` set (columns da)"
  shows "(\<exists>e. resolver_problema_dieta_scipy linprog dn da = Inl e) \<and>
         (\<forall>c ingr mins b.
            wf_frame dn \<and> wf_frame da \<and>
            getitem da ''preco'' = Inr c \<and> getitem da ''ingrediente'' = Inr ingr \<and>
            getitem dn ''minimo'' = Inr mins \<and> neg_list mins = Inr b \<longrightarrow>
            resolver_problema_dieta_scipy linprog dn da =
              Inl (KeyError (filter (\<lambda>lab. find_col da lab = None) nomes)) \<and>
            Str n \<in> set (filter (\<lambda>lab. find_col da lab = None) nomes))"
proof -
  let ?missing = "filter (\<lambda>lab. find_col da lab = None) nomes"
  have "map_of (columns da) n = None" using assms(3) by (simp add: map_of_eq_None_iff)
  then have "find_col da (Str n) = None" by (simp add: find_col_def)
  with assms(2) have m: "Str n \<in> set ?missing" by simp
  then obtain x xs where "?missing = x # xs" by (cases ?missing) auto
  then have gl: "getitem_list da nomes = Inl (KeyError ?missing)"
    by (simp add: getitem_list_def)
  have f1: "\<exists>e. formular dn da = Inl e"
    by (cases "getitem da ''preco''"; cases "getitem da ''ingrediente''";
        cases "getitem dn ''minimo''")
       (auto simp: formular_def assms(1) gl bind_err_def split: sum.splits)
  have f2: "formular dn da = Inl (KeyError ?missing)"
    if "getitem da ''preco'' = Inr c" "getitem da ''ingrediente'' = Inr ingr"
       "getitem dn ''minimo'' = Inr mins" "neg_list mins = Inr b" for c ingr mins b
    using that by (simp add: formular_def assms(1) gl)
  from f1 have "\<exists>e. resolver_problema_dieta_scipy linprog dn da = Inl e"
    by (auto simp: resolver_problema_dieta_scipy_def)
  moreover have "resolver_problema_dieta_scipy linprog dn da = Inl (KeyError ?missing)"
    if "getitem da ''preco'' = Inr c" "getitem da ''ingrediente'' = Inr ingr"
       "getitem dn ''minimo'' = Inr mins" "neg_list mins = Inr b" for c ingr mins b
    using f2 [OF that] by (simp add: resolver_problema_dieta_scipy_def)
  ultimately show ?thesis using m by blast
qed

theorem nutriente_ausente_witness:
  "resolver_problema_dieta_scipy linprog_A nutrientes_A alimentos_sem =
     Inl (KeyError [Str ''Protein''])"
proof -
  have "getitem nutrientes_A ''nutrientes'' = Inr [Str ''Protein'']"
    and "Str ''Protein'' \<in> set [Str ''Protein'']"
    and "''Protein'' \<notin> fst ` set (columns alimentos_sem)"
    by (simp_all add: getitem_def nutrientes_A_def alimentos_sem_def)
  then have "(\<exists>e. resolver_problema_dieta_scipy linprog_A nutrientes_A alimentos_sem = Inl e) \<and>
         (\<forall>c ingr mins b.
            wf_frame nutrientes_A \<and> wf_frame alimentos_sem \<and>
            getitem alimentos_sem ''preco'' = Inr c \<and>
            getitem alimentos_sem ''ingrediente'' = Inr ingr \<and>
            getitem nutrientes_A ''minimo'' = Inr mins \<and> neg_list mins = Inr b \<longrightarrow>
            resolver_problema_dieta_scipy linprog_A nutrientes_A alimentos_sem =
              Inl (KeyError (filter (\<lambda>lab. find_col alimentos_sem lab = None) [Str ''Protein''])) \<and>
            Str ''Protein'' \<in> set (filter (\<lambda>lab. find_col alimentos_sem lab = None) [Str ''Protein'']))"
    by (rule nutriente_ausente)
  moreover have "wf_frame alimentos_sem"
    by (simp add: wf_frame_def alimentos_sem_def)
  moreover note wf_nutrientes_A
  moreover have "getitem alimentos_sem ''preco'' = Inr [Num 2, Num 3]"
    and "getitem alimentos_sem ''ingrediente'' = Inr [Str ''Rice'', Str ''Beans'']"
    and "getitem nutrientes_A ''minimo'' = Inr [Num 50]"
    and "neg_list [Num 50] = Inr [- 50]"
    and "filter (\<lambda>lab. find_col alimentos_sem lab = None) [Str ''Protein''] = [Str ''Protein'']"
    by (simp_all add: getitem_def nutrientes_A_def alimentos_sem_def find_col_def)
  ultimately show ?thesis by metis
qed

section \<open>The columns read from the nutrient table\<close>

text \<open>
  C7.  The program does not read columns named \<open>nutrients\<close> and \<open>minimum\<close>: on a nutrient
  table with these columns it raises \<open>KeyError\<close> for \<open>nutrientes\<close>, and on one with
  \<open>nutrientes\<close> and \<open>minimum\<close> it raises \<open>KeyError\<close> for \<open>minimo\<close>.
\<close>

theorem colunas_nutrients_minimum_counterexample:
  "resolver_problema_dieta_scipy linprog_A nutrientes_en alimentos_A =
     Inl (KeyError [Str ''nutrientes'']) \<and>
   resolver_problema_dieta_scipy linprog_A nutrientes_misto alimentos_A =
     Inl (KeyError [Str ''minimo''])"
  by (simp add: resolver_problema_dieta_scipy_def formular_def getitem_def
      nutrientes_en_def nutrientes_misto_def alimentos_A_def)

text \<open>
  C7, as the program has it.  The names of the nutrients are read from the column
  \<open>nutrientes\<close> of the nutrient table and the minimums from its column \<open>minimo\<close>: whenever
  the program prints something, both columns exist, the names of the formulated problem are
  the first and its right-hand side is the negation of the second.
\<close>

theorem colunas_nutrientes_minimo:
  assumes "wf_frame dn"
    and "resolver_problema_dieta_scipy linprog dn da = Inr out"
  shows "\<exists>lp. formular dn da = Inr lp \<and>
           getitem dn ''nutrientes'' = Inr (nomes_nutrientes lp) \<and>
           getitem dn ''minimo'' = Inr (map (\<lambda>b. Num (- b)) (b_ub lp))"
proof -
  from assms(2) obtain lp where f: "formular dn da = Inr lp"
    by (auto simp: resolver_problema_dieta_scipy_def bind_err_eq_Inr)
  from formular_Inr(4) [OF f] obtain mins where
    "getitem dn ''minimo'' = Inr mins" "neg_list mins = Inr (b_ub lp)" by blast
  then have "getitem dn ''minimo'' = Inr (map (\<lambda>b. Num (- b)) (b_ub lp))"
    using neg_list_inverse by simp
  with f formular_Inr(2) [OF f] show ?thesis by blast
qed

theorem colunas_nutrientes_minimo_witness:
  "\<exists>lp. formular nutrientes_A alimentos_A = Inr lp \<and>
           getitem nutrientes_A ''nutrientes'' = Inr (nomes_nutrientes lp) \<and>
           getitem nutrientes_A ''minimo'' = Inr (map (\<lambda>b. Num (- b)) (b_ub lp))"
  using wf_nutrientes_A resolver_A by (rule colunas_nutrientes_minimo)

section \<open>A missing file\<close>

text \<open>
  C9.  When one of the two files does not exist, the loader raises \<open>FileNotFoundError\<close>
  and has not called \<open>read_csv\<close>: no table was read.
\<close>

theorem arquivo_ausente:
  assumes "\<not> path_exists e nome_nutrientes \<or> \<not> path_exists e nome_alimentos"
  shows "carregar_dados_csv e nome_nutrientes nome_alimentos =
           (Inl (FileNotFoundError nome_nutrientes nome_alimentos), [])"
  using assms by (auto simp: carregar_dados_csv_def)

theorem arquivo_ausente_witness:
  "carregar_dados_csv env_so_nutrientes ''nutrientes.csv'' ''ingrediente.csv'' =
     (Inl (FileNotFoundError ''nutrientes.csv'' ''ingrediente.csv''), [])"
proof -
  have "\<not> path_exists env_so_nutrientes ''nutrientes.csv'' \<or>
        \<not> path_exists env_so_nutrientes ''ingrediente.csv''"
    by (simp add: env_so_nutrientes_def)
  then show ?thesis by (rule arquivo_ausente)
qed

section \<open>The numeric columns of the food table\<close>



end
